theory Spec2Isabelle
  imports Complex_Main "HOL-Library.Char_ord" "HOL-Library.List_Lexorder"
begin

section \<open>Data model\<close>

text \<open>
  The API server of the template: the auth routes (login, register) and the tasks routes
  (list, get, create, update, delete), over the two tables \<open>users\<close> and \<open>tasks\<close>.
  A UUID and a JavaScript string are a \<open>string\<close>; \<open>length\<close> stands for the
  JavaScript \<open>.length\<close>. A \<open>Date\<close> (and a Postgres timestamp) is an instant in
  milliseconds since the epoch. A JavaScript \<open>number\<close> is an \<open>int\<close>: the model
  covers whole numbers, which JavaScript computes exactly up to \<open>2^53\<close>. A JSON
  request body is an object of the shape its TypeScript type declares: an optional
  field is an \<open>option\<close>. A path parameter \<open>id\<close> is a well-formed UUID. The query
  string of the list route reaches its handler as it was sent, without a schema: its
  values are strings, whatever the declared type says (see \<open>list_tasks_params\<close>).
\<close>

type_synonym uuid = string
type_synonym timestamp = int

text \<open>packages/db/src/schema/users.ts\<close>

record user_row =
  user_id :: uuid
  user_email :: string
  user_name :: string
  user_passwordHash :: string
  user_createdAt :: timestamp
  user_updatedAt :: timestamp

text \<open>packages/db/src/schema/tasks.ts\<close>

record task_row =
  task_id :: uuid
  task_userId :: uuid
  task_title :: string
  task_description :: "string option"
  task_completed :: bool
  task_createdAt :: timestamp
  task_updatedAt :: timestamp

text \<open>
  The database: each table is the list of its rows. The order of the list is not an
  order the store promises to any query.
\<close>

record db =
  users :: "user_row list"
  tasks :: "task_row list"

text \<open>packages/types/src/models.ts, interface User: the user as the API returns it.\<close>

record api_user =
  api_id :: uuid
  api_email :: string
  api_name :: string
  api_createdAt :: timestamp
  api_updatedAt :: timestamp

text \<open>packages/types/src/api.ts\<close>

record login_body =
  login_email :: string
  login_password :: string

record register_body =
  register_email :: string
  register_password :: string
  register_name :: string

record auth_response =
  resp_user :: api_user
  resp_token :: string
  resp_expiresIn :: int

record create_task_request =
  create_title :: string
  create_description :: "string option"

record update_task_request =
  update_title :: "string option"
  update_description :: "string option"
  update_completed :: "bool option"

text \<open>
  The query of GET /api/tasks as the handler receives it. No schema is attached to the
  route, so nothing parses the query string: a value that is present is a string.
  \<open>params_page = Some n\<close> and \<open>params_limit = Some n\<close> stand for the string that
  spells the whole number \<open>n\<close> in decimal, as in \<open>?page=2&limit=20\<close> (other texts
  are not modelled); \<open>params_completed = Some s\<close> is the text \<open>s\<close>, as in
  \<open>?completed=true\<close>.
\<close>

record list_tasks_params =
  params_page :: "int option"
  params_limit :: "int option"
  params_completed :: "string option"

text \<open>
  The value of \<open>page\<close> or \<open>limit\<close> inside the handler: the number \<open>n\<close> (a default),
  or the string that spells \<open>n\<close> (taken from the query string). Arithmetic converts
  the string to the number (\<open>to_number\<close>); the response and the query builder get
  the value as it is.
\<close>

datatype js_value = JNumber int | JDigits int

definition to_number :: "js_value \<Rightarrow> int" where
  "to_number v = (case v of JNumber n \<Rightarrow> n | JDigits n \<Rightarrow> n)"

text \<open>
  A JavaScript number as \<open>Math.ceil(total / limit)\<close> produces it: an integer, or the
  result of a division by zero.
\<close>

datatype js_number = Finite int | Infinity | NaN

record pagination =
  pagination_page :: js_value
  pagination_limit :: js_value
  pagination_total :: nat
  pagination_totalPages :: js_number

record list_tasks_response =
  list_data :: "task_row list"
  list_pagination :: pagination

section \<open>Errors\<close>

text \<open>
  A thrown JavaScript error: its name, its message and its \<open>statusCode\<close> property
  when it has one. A handler returns \<open>js_error + 'a\<close>; \<open>Inl\<close> is the error that
  reaches the error handler of the server.
\<close>

record js_error =
  err_name :: string
  err_message :: string
  err_statusCode :: "nat option"

text \<open>
  The body \<open>{statusCode, error, message}\<close> of an error response. (For an error that
  carries a \<open>code\<close>, as those of the libraries do, the response has that member too;
  it is left out of the model.)
\<close>

record error_body =
  body_statusCode :: nat
  body_error :: string
  body_message :: string

text \<open>The replies of @fastify/sensible that the handlers use.\<close>

definition badRequest :: "string \<Rightarrow> js_error" where
  "badRequest msg =
     \<lparr>err_name = ''BadRequestError'', err_message = msg, err_statusCode = Some 400\<rparr>"

definition unauthorized :: "string \<Rightarrow> js_error" where
  "unauthorized msg =
     \<lparr>err_name = ''UnauthorizedError'', err_message = msg, err_statusCode = Some 401\<rparr>"

definition notFound :: "string \<Rightarrow> js_error" where
  "notFound msg =
     \<lparr>err_name = ''NotFoundError'', err_message = msg, err_statusCode = Some 404\<rparr>"

definition conflict :: "string \<Rightarrow> js_error" where
  "conflict msg =
     \<lparr>err_name = ''ConflictError'', err_message = msg, err_statusCode = Some 409\<rparr>"

text \<open>\<open>throw new Error(msg)\<close>: no status code.\<close>

definition plainError :: "string \<Rightarrow> js_error" where
  "plainError msg = \<lparr>err_name = ''Error'', err_message = msg, err_statusCode = None\<rparr>"

text \<open>
  The error the store raises when a statement violates a constraint or is malformed;
  it carries no status code. The error of a failed schema validation, status 400, and
  the error of a failed \<open>request.jwtVerify()\<close>, status 401. The message texts of these
  three come from the libraries and are placeholders here: no theorem states them.
\<close>

definition postgresError :: "string \<Rightarrow> js_error" where
  "postgresError msg =
     \<lparr>err_name = ''PostgresError'', err_message = msg, err_statusCode = None\<rparr>"

definition validationError :: js_error where
  "validationError =
     \<lparr>err_name = ''Error'', err_message = ''body validation failed'',
      err_statusCode = Some 400\<rparr>"

definition jwtError :: js_error where
  "jwtError =
     \<lparr>err_name = ''FastifyError'', err_message = ''token missing, invalid or expired'',
      err_statusCode = Some 401\<rparr>"

text \<open>
  The server's \<open>setErrorHandler\<close>: \<open>error.statusCode || 500\<close>,
  \<open>error.message || 'Internal Server Error'\<close>, \<open>error.name || 'Error'\<close>. The server
  installs it after it has registered (and awaited) the three route plugins, which is
  too late for their routes: a route keeps the error handler in force when its plugin
  was loaded. So no route below uses \<open>errorHandler\<close>.
\<close>

definition errorHandler :: "js_error \<Rightarrow> error_body" where
  "errorHandler e =
     (let statusCode = (case err_statusCode e of
                          None \<Rightarrow> 500
                        | Some c \<Rightarrow> if c = 0 then 500 else c);
          message = (if err_message e = [] then ''Internal Server Error''
                     else err_message e)
      in \<lparr>body_statusCode = statusCode,
          body_error = (if err_name e = [] then ''Error'' else err_name e),
          body_message = message\<rparr>)"

text \<open>
  The error handler the routes do use is the default one of Fastify: the status is the
  error's \<open>statusCode\<close> when that is 400 or more and 500 otherwise, \<open>error\<close> is the
  standard text of the status, and \<open>message\<close> is the error's message.
  \<open>status_text\<close> lists the statuses the server answers with.
\<close>

definition status_text :: "nat \<Rightarrow> string" where
  "status_text c =
     (if c = 400 then ''Bad Request''
      else if c = 401 then ''Unauthorized''
      else if c = 404 then ''Not Found''
      else if c = 409 then ''Conflict''
      else if c = 500 then ''Internal Server Error''
      else [])"

definition defaultErrorHandler :: "js_error \<Rightarrow> error_body" where
  "defaultErrorHandler e =
     (let statusCode = (case err_statusCode e of
                          None \<Rightarrow> 500
                        | Some c \<Rightarrow> if 400 \<le> c then c else 500)
      in \<lparr>body_statusCode = statusCode,
          body_error = status_text statusCode,
          body_message = err_message e\<rparr>)"

section \<open>The libraries\<close>

text \<open>
  bcrypt, the JWT plugin and zod's email check are not code of this repository: they are
  parameters of the model. \<open>bcrypt_hash password rounds salt\<close> is \<open>bcrypt.hash\<close> with
  the salt it draws; \<open>jwt_sign userId expiresIn now\<close> signs the payload \<open>{userId}\<close> at
  the instant \<open>now\<close>; \<open>jwt_verify token now\<close> is the \<open>userId\<close> of the payload when
  the token verifies at the instant \<open>now\<close>.
\<close>

record libs =
  bcrypt_hash :: "string \<Rightarrow> nat \<Rightarrow> string \<Rightarrow> string"
  bcrypt_compare :: "string \<Rightarrow> string \<Rightarrow> bool"
  jwt_sign :: "uuid \<Rightarrow> string \<Rightarrow> timestamp \<Rightarrow> string"
  jwt_verify :: "string \<Rightarrow> timestamp \<Rightarrow> uuid option"
  zod_email :: "string \<Rightarrow> bool"

text \<open>
  What a request draws from its environment: the clock, the UUID that
  \<open>defaultRandom()\<close> gives an inserted row, the salt of \<open>bcrypt.hash\<close>, and the order
  in which the store yields rows that the query's \<open>ORDER BY\<close> leaves tied.
  \<open>env_ties e t\<close> is the rank of row \<open>t\<close> among its ties in this request's query: the
  store is free to rank them differently in every query.
\<close>

record env =
  env_now :: timestamp
  env_uuid :: uuid
  env_salt :: string
  env_ties :: "task_row \<Rightarrow> nat"

section \<open>apps/api/src/lib/auth.ts\<close>

definition SALT_ROUNDS :: nat where
  "SALT_ROUNDS = 10"

definition hashPassword :: "libs \<Rightarrow> string \<Rightarrow> string \<Rightarrow> string" where
  "hashPassword L salt password = bcrypt_hash L password SALT_ROUNDS salt"

definition verifyPassword :: "libs \<Rightarrow> string \<Rightarrow> string \<Rightarrow> bool" where
  "verifyPassword L password hash = bcrypt_compare L password hash"

text \<open>
  \<open>request.jwtVerify()\<close> on the bearer token of the request (\<open>None\<close>: no
  Authorization header).
\<close>

definition jwtVerify :: "libs \<Rightarrow> timestamp \<Rightarrow> string option \<Rightarrow> js_error + uuid" where
  "jwtVerify L now auth =
     (case auth of
        None \<Rightarrow> Inl jwtError
      | Some tok \<Rightarrow> (case jwt_verify L tok now of
                      None \<Rightarrow> Inl jwtError
                    | Some userId \<Rightarrow> Inr userId))"

definition getUserIdFromToken :: "libs \<Rightarrow> timestamp \<Rightarrow> string option \<Rightarrow> js_error + uuid" where
  "getUserIdFromToken L now auth =
     (case jwtVerify L now auth of
        Inl _ \<Rightarrow> Inl (plainError ''Invalid or missing token'')
      | Inr userId \<Rightarrow> Inr userId)"

definition generateToken :: "libs \<Rightarrow> timestamp \<Rightarrow> uuid \<Rightarrow> string" where
  "generateToken L now userId = jwt_sign L userId ''7d'' now"

section \<open>apps/api/src/lib/validation.ts and routes/auth/schemas.ts\<close>

definition emailSchema :: "libs \<Rightarrow> string \<Rightarrow> bool" where
  "emailSchema L s = zod_email L s"

definition passwordSchema :: "string \<Rightarrow> bool" where
  "passwordSchema s = (8 \<le> length s)"

text \<open>
  \<open>paginationSchema\<close>, on the \<open>page\<close> and \<open>limit\<close> of a query string as in
  \<open>list_tasks_params\<close> (strings that spell whole numbers, which \<open>z.coerce.number()\<close>
  converts): the parsed page and limit, with the defaults 1 and 20, or \<open>None\<close> when
  the input is rejected. No route of the server uses it.
\<close>

definition paginationSchema :: "int option \<Rightarrow> int option \<Rightarrow> (int \<times> int) option" where
  "paginationSchema page limit =
     (let p = (case page of None \<Rightarrow> 1 | Some v \<Rightarrow> v);
          l = (case limit of None \<Rightarrow> 20 | Some v \<Rightarrow> v)
      in if 0 < p \<and> 0 < l \<and> l \<le> 100 then Some (p, l) else None)"

definition loginBodySchema :: "libs \<Rightarrow> login_body \<Rightarrow> bool" where
  "loginBodySchema L b = (emailSchema L (login_email b) \<and> passwordSchema (login_password b))"

definition registerBodySchema :: "libs \<Rightarrow> register_body \<Rightarrow> bool" where
  "registerBodySchema L b =
     (emailSchema L (register_email b) \<and> passwordSchema (register_password b)
      \<and> 1 \<le> length (register_name b))"

section \<open>The store\<close>

text \<open>
  The statements the handlers send through the ORM. \<open>first\<close> is the destructuring
  \<open>const [x] = rows\<close>: \<open>None\<close> for \<open>undefined\<close>.
\<close>

definition first :: "'a list \<Rightarrow> 'a option" where
  "first rows = (case rows of [] \<Rightarrow> None | x # _ \<Rightarrow> Some x)"

text \<open>
  \<open>insert(users).values({email, passwordHash, name}).returning()\<close>: the id is the
  drawn UUID, both timestamps are \<open>now()\<close>. The primary key and the unique email are
  enforced by the store.
\<close>

definition insert_user :: "db \<Rightarrow> env \<Rightarrow> string \<Rightarrow> string \<Rightarrow> string \<Rightarrow> js_error + (user_row \<times> db)" where
  "insert_user d e email passwordHash name =
     (if env_uuid e \<in> set (map user_id (users d))
      then Inl (postgresError ''duplicate key value violates unique constraint users_pkey'')
      else if email \<in> set (map user_email (users d))
      then Inl (postgresError ''duplicate key value violates unique constraint users_email_unique'')
      else
        let row = \<lparr>user_id = env_uuid e, user_email = email, user_name = name,
                   user_passwordHash = passwordHash,
                   user_createdAt = env_now e, user_updatedAt = env_now e\<rparr>
        in Inr (row, d\<lparr>users := users d @ [row]\<rparr>))"

text \<open>
  \<open>insert(tasks).values({userId, title, description}).returning()\<close>: \<open>completed\<close>
  defaults to false. The primary key and the foreign key to \<open>users.id\<close> are enforced
  by the store.
\<close>

definition insert_task :: "db \<Rightarrow> env \<Rightarrow> uuid \<Rightarrow> string \<Rightarrow> string option \<Rightarrow> js_error + (task_row \<times> db)" where
  "insert_task d e userId title description =
     (if env_uuid e \<in> set (map task_id (tasks d))
      then Inl (postgresError ''duplicate key value violates unique constraint tasks_pkey'')
      else if userId \<notin> set (map user_id (users d))
      then Inl (postgresError ''insert violates foreign key constraint tasks_user_id_users_id_fk'')
      else
        let row = \<lparr>task_id = env_uuid e, task_userId = userId, task_title = title,
                   task_description = description, task_completed = False,
                   task_createdAt = env_now e, task_updatedAt = env_now e\<rparr>
        in Inr (row, d\<lparr>tasks := tasks d @ [row]\<rparr>))"

text \<open>
  \<open>orderBy(desc(tasks.createdAt))\<close>: newest first. The statement names no second
  sort key, and the store leaves the order of rows with equal \<open>createdAt\<close> open, query
  by query: they come out by the ranks \<open>ties\<close> that the request draws. (Rows of equal
  \<open>createdAt\<close> and equal rank come out as the list holds them.)
\<close>

definition orderBy_desc_createdAt :: "(task_row \<Rightarrow> nat) \<Rightarrow> task_row list \<Rightarrow> task_row list" where
  "orderBy_desc_createdAt ties rows =
     sort_key (\<lambda>t. - task_createdAt t) (sort_key ties rows)"

text \<open>
  \<open>.limit(l).offset(off)\<close>, as the query builder and the store treat them. The
  builder writes a LIMIT only for a number that is not negative: a string, which is
  what an explicit \<open>limit\<close> of the query string is, is left out of the query. It
  writes an OFFSET only for a number other than 0. The store rejects an OFFSET that is
  negative or beyond the 64-bit integers.
\<close>

definition limit_offset :: "js_value \<Rightarrow> int \<Rightarrow> 'a list \<Rightarrow> js_error + 'a list" where
  "limit_offset l off rows =
     (if off < 0 then Inl (postgresError ''OFFSET must not be negative'')
      else if 2 ^ 63 \<le> off then Inl (postgresError ''value out of range for type bigint'')
      else Inr ((case l of
                   JNumber n \<Rightarrow> if 0 \<le> n then take (nat n) else (\<lambda>rows. rows)
                 | JDigits n \<Rightarrow> (\<lambda>rows. rows))
                (drop (nat off) rows)))"

text \<open>
  \<open>update(tasks).set(updateData).where(w).returning()\<close>: \<open>updateData\<close> always sets
  \<open>updatedAt\<close>, and the fields that are present. (Where the updated row stands in the
  list says nothing about where a later query yields it: see \<open>env_ties\<close>.)
\<close>

record update_data =
  set_title :: "string option"
  set_description :: "string option"
  set_completed :: "bool option"
  set_updatedAt :: timestamp

definition apply_update :: "update_data \<Rightarrow> task_row \<Rightarrow> task_row" where
  "apply_update u t =
     t\<lparr>task_title := (case set_title u of None \<Rightarrow> task_title t | Some v \<Rightarrow> v),
       task_description := (case set_description u of
                              None \<Rightarrow> task_description t | Some v \<Rightarrow> Some v),
       task_completed := (case set_completed u of None \<Rightarrow> task_completed t | Some v \<Rightarrow> v),
       task_updatedAt := set_updatedAt u\<rparr>"

definition update_tasks :: "db \<Rightarrow> update_data \<Rightarrow> (task_row \<Rightarrow> bool) \<Rightarrow> task_row list \<times> db" where
  "update_tasks d u w =
     (map (apply_update u) (filter w (tasks d)),
      d\<lparr>tasks := map (\<lambda>t. if w t then apply_update u t else t) (tasks d)\<rparr>)"

text \<open>\<open>delete(tasks).where(w).returning()\<close>\<close>

definition delete_tasks :: "db \<Rightarrow> (task_row \<Rightarrow> bool) \<Rightarrow> task_row list \<times> db" where
  "delete_tasks d w =
     (filter w (tasks d), d\<lparr>tasks := filter (\<lambda>t. \<not> w t) (tasks d)\<rparr>)"

section \<open>apps/api/src/routes/auth/handlers.ts\<close>

definition SEVEN_DAYS :: int where
  "SEVEN_DAYS = 7 * 24 * 60 * 60"

definition public_user :: "user_row \<Rightarrow> api_user" where
  "public_user u =
     \<lparr>api_id = user_id u, api_email = user_email u, api_name = user_name u,
      api_createdAt = user_createdAt u, api_updatedAt = user_updatedAt u\<rparr>"

text \<open>POST /api/auth/login\<close>

definition loginHandler :: "libs \<Rightarrow> db \<Rightarrow> env \<Rightarrow> login_body \<Rightarrow> js_error + auth_response" where
  "loginHandler L d e b =
     (case first (take 1 (filter (\<lambda>u. user_email u = login_email b) (users d))) of
        None \<Rightarrow> Inl (unauthorized ''Invalid email or password'')
      | Some user \<Rightarrow>
          if \<not> verifyPassword L (login_password b) (user_passwordHash user)
          then Inl (unauthorized ''Invalid email or password'')
          else Inr \<lparr>resp_user = public_user user,
                    resp_token = generateToken L (env_now e) (user_id user),
                    resp_expiresIn = SEVEN_DAYS\<rparr>)"

text \<open>POST /api/auth/register\<close>

definition registerHandler :: "libs \<Rightarrow> db \<Rightarrow> env \<Rightarrow> register_body \<Rightarrow> (js_error + auth_response) \<times> db" where
  "registerHandler L d e b =
     (case first (take 1 (filter (\<lambda>u. user_email u = register_email b) (users d))) of
        Some existingUser \<Rightarrow> (Inl (conflict ''User with this email already exists''), d)
      | None \<Rightarrow>
          let passwordHash = hashPassword L (env_salt e) (register_password b)
          in (case insert_user d e (register_email b) passwordHash (register_name b) of
                Inl err \<Rightarrow> (Inl err, d)
              | Inr (newUser, d') \<Rightarrow>
                  (Inr \<lparr>resp_user = public_user newUser,
                        resp_token = generateToken L (env_now e) (user_id newUser),
                        resp_expiresIn = SEVEN_DAYS\<rparr>, d')))"

section \<open>apps/api/src/routes/auth/index.ts\<close>

text \<open>
  A route validates the body against its schema, runs the handler, and sends an error
  through Fastify's default error handler. The result is the response and the store
  after the request.
\<close>

definition login_route :: "libs \<Rightarrow> db \<Rightarrow> env \<Rightarrow> login_body \<Rightarrow> (error_body + auth_response) \<times> db" where
  "login_route L d e b =
     (if \<not> loginBodySchema L b then (Inl (defaultErrorHandler validationError), d)
      else (map_sum defaultErrorHandler id (loginHandler L d e b), d))"

definition register_route :: "libs \<Rightarrow> db \<Rightarrow> env \<Rightarrow> register_body \<Rightarrow> (error_body + auth_response) \<times> db" where
  "register_route L d e b =
     (if \<not> registerBodySchema L b then (Inl (defaultErrorHandler validationError), d)
      else (case registerHandler L d e b of
              (r, d') \<Rightarrow> (map_sum defaultErrorHandler id r, d')))"

section \<open>apps/api/src/routes/tasks/handlers.ts\<close>

text \<open>\<open>Math.ceil(total / limit)\<close>, for a row count \<open>n\<close>.\<close>

definition ceil_div :: "nat \<Rightarrow> int \<Rightarrow> js_number" where
  "ceil_div n limit =
     (if limit = 0 then (if n = 0 then NaN else Infinity)
      else Finite (- ((- int n) div limit)))"

text \<open>
  \<open>eq(tasks.completed, completed)\<close> with the \<open>completed\<close> of the query string: the
  database driver sends a boolean parameter as \<open>x === true ? 't' : 'f'\<close>, and a string
  is never \<open>true\<close>. So whatever the text, the comparison is with false.
\<close>

definition serialize_boolean :: "string \<Rightarrow> bool" where
  "serialize_boolean x = False"

definition whereClause :: "uuid \<Rightarrow> string option \<Rightarrow> task_row \<Rightarrow> bool" where
  "whereClause userId completed t =
     (case completed of
        Some c \<Rightarrow> task_userId t = userId \<and> task_completed t = serialize_boolean c
      | None \<Rightarrow> task_userId t = userId)"

text \<open>GET /api/tasks\<close>

definition listTasksHandler :: "libs \<Rightarrow> db \<Rightarrow> env \<Rightarrow> string option \<Rightarrow> list_tasks_params \<Rightarrow> js_error + list_tasks_response" where
  "listTasksHandler L d e auth q =
     (case getUserIdFromToken L (env_now e) auth of
        Inl err \<Rightarrow> Inl err
      | Inr userId \<Rightarrow>
          let page = (case params_page q of None \<Rightarrow> JNumber 1 | Some p \<Rightarrow> JDigits p);
              limit = (case params_limit q of None \<Rightarrow> JNumber 20 | Some l \<Rightarrow> JDigits l);
              offset = (to_number page - 1) * to_number limit;
              w = whereClause userId (params_completed q)
          in (case limit_offset limit offset
                     (orderBy_desc_createdAt (env_ties e) (filter w (tasks d))) of
                Inl err \<Rightarrow> Inl err
              | Inr taskList \<Rightarrow>
                  let totalCount = length (filter w (tasks d))
                  in Inr \<lparr>list_data = taskList,
                          list_pagination =
                            \<lparr>pagination_page = page, pagination_limit = limit,
                             pagination_total = totalCount,
                             pagination_totalPages =
                               ceil_div totalCount (to_number limit)\<rparr>\<rparr>))"

text \<open>GET /api/tasks/:id\<close>

definition getTaskHandler :: "libs \<Rightarrow> db \<Rightarrow> env \<Rightarrow> string option \<Rightarrow> uuid \<Rightarrow> js_error + task_row" where
  "getTaskHandler L d e auth i =
     (case getUserIdFromToken L (env_now e) auth of
        Inl err \<Rightarrow> Inl err
      | Inr userId \<Rightarrow>
          (case first (take 1 (filter (\<lambda>t. task_id t = i \<and> task_userId t = userId) (tasks d))) of
             None \<Rightarrow> Inl (notFound ''Task not found'')
           | Some task \<Rightarrow> Inr task))"

text \<open>POST /api/tasks. \<open>description || null\<close>: an absent or empty description is null.\<close>

definition or_null :: "string option \<Rightarrow> string option" where
  "or_null v = (case v of None \<Rightarrow> None | Some s \<Rightarrow> if s = [] then None else Some s)"

definition createTaskHandler :: "libs \<Rightarrow> db \<Rightarrow> env \<Rightarrow> string option \<Rightarrow> create_task_request \<Rightarrow> (js_error + task_row) \<times> db" where
  "createTaskHandler L d e auth b =
     (case getUserIdFromToken L (env_now e) auth of
        Inl err \<Rightarrow> (Inl err, d)
      | Inr userId \<Rightarrow>
          (case insert_task d e userId (create_title b) (or_null (create_description b)) of
             Inl err \<Rightarrow> (Inl err, d)
           | Inr (task, d') \<Rightarrow> (Inr task, d')))"

text \<open>PATCH /api/tasks/:id\<close>

definition updateTaskHandler :: "libs \<Rightarrow> db \<Rightarrow> env \<Rightarrow> string option \<Rightarrow> uuid \<Rightarrow> update_task_request \<Rightarrow> (js_error + task_row) \<times> db" where
  "updateTaskHandler L d e auth i b =
     (case getUserIdFromToken L (env_now e) auth of
        Inl err \<Rightarrow> (Inl err, d)
      | Inr userId \<Rightarrow>
          if update_title b = None \<and> update_description b = None \<and> update_completed b = None
          then (Inl (badRequest ''At least one field must be provided''), d)
          else
            let updateData = \<lparr>set_title = update_title b,
                              set_description = update_description b,
                              set_completed = update_completed b,
                              set_updatedAt = env_now e\<rparr>
            in (case update_tasks d updateData (\<lambda>t. task_id t = i \<and> task_userId t = userId) of
                  (rows, d') \<Rightarrow>
                    (case first rows of
                       None \<Rightarrow> (Inl (notFound ''Task not found''), d')
                     | Some updatedTask \<Rightarrow> (Inr updatedTask, d'))))"

text \<open>DELETE /api/tasks/:id: the response \<open>{success: true}\<close> is \<open>Inr True\<close>.\<close>

definition deleteTaskHandler :: "libs \<Rightarrow> db \<Rightarrow> env \<Rightarrow> string option \<Rightarrow> uuid \<Rightarrow> (js_error + bool) \<times> db" where
  "deleteTaskHandler L d e auth i =
     (case getUserIdFromToken L (env_now e) auth of
        Inl err \<Rightarrow> (Inl err, d)
      | Inr userId \<Rightarrow>
          (case delete_tasks d (\<lambda>t. task_id t = i \<and> task_userId t = userId) of
             (rows, d') \<Rightarrow>
               (case first rows of
                  None \<Rightarrow> (Inl (notFound ''Task not found''), d')
                | Some deletedTask \<Rightarrow> (Inr True, d'))))"

section \<open>apps/api/src/routes/tasks/index.ts\<close>

text \<open>
  Every task route runs the \<open>onRequest\<close> hook \<open>request.jwtVerify()\<close> and then the
  handler; an error goes through Fastify's default error handler. No task route has a
  schema: the handler receives the query and the body as they are.
\<close>

definition tasks_route :: "libs \<Rightarrow> db \<Rightarrow> env \<Rightarrow> string option \<Rightarrow> ((js_error + 'a) \<times> db) \<Rightarrow> (error_body + 'a) \<times> db" where
  "tasks_route L d e auth handler =
     (case jwtVerify L (env_now e) auth of
        Inl err \<Rightarrow> (Inl (defaultErrorHandler err), d)
      | Inr _ \<Rightarrow> (case handler of (r, d') \<Rightarrow> (map_sum defaultErrorHandler id r, d')))"

definition list_route :: "libs \<Rightarrow> db \<Rightarrow> env \<Rightarrow> string option \<Rightarrow> list_tasks_params \<Rightarrow> (error_body + list_tasks_response) \<times> db" where
  "list_route L d e auth q = tasks_route L d e auth (listTasksHandler L d e auth q, d)"

definition get_route :: "libs \<Rightarrow> db \<Rightarrow> env \<Rightarrow> string option \<Rightarrow> uuid \<Rightarrow> (error_body + task_row) \<times> db" where
  "get_route L d e auth i = tasks_route L d e auth (getTaskHandler L d e auth i, d)"

definition create_route :: "libs \<Rightarrow> db \<Rightarrow> env \<Rightarrow> string option \<Rightarrow> create_task_request \<Rightarrow> (error_body + task_row) \<times> db" where
  "create_route L d e auth b = tasks_route L d e auth (createTaskHandler L d e auth b)"

definition update_route :: "libs \<Rightarrow> db \<Rightarrow> env \<Rightarrow> string option \<Rightarrow> uuid \<Rightarrow> update_task_request \<Rightarrow> (error_body + task_row) \<times> db" where
  "update_route L d e auth i b = tasks_route L d e auth (updateTaskHandler L d e auth i b)"

definition delete_route :: "libs \<Rightarrow> db \<Rightarrow> env \<Rightarrow> string option \<Rightarrow> uuid \<Rightarrow> (error_body + bool) \<times> db" where
  "delete_route L d e auth i = tasks_route L d e auth (deleteTaskHandler L d e auth i)"

section \<open>What the libraries guarantee\<close>

text \<open>
  bcrypt: a password verifies against its own hash, whatever the salt. JWT: a token
  signed for a user with \<open>expiresIn: '7d'\<close> verifies to that user from the instant of
  signing until seven days later.
\<close>

definition bcrypt_contract :: "libs \<Rightarrow> bool" where
  "bcrypt_contract L = (\<forall>p r s. bcrypt_compare L p (bcrypt_hash L p r s))"

definition jwt_contract :: "libs \<Rightarrow> bool" where
  "jwt_contract L =
     (\<forall>u now t. now \<le> t \<and> t < now + 1000 * SEVEN_DAYS \<longrightarrow>
        jwt_verify L (jwt_sign L u ''7d'' now) t = Some u)"

section \<open>Concrete inputs\<close>

text \<open>
  Stand-ins for the libraries and a small store, used to run the handlers on concrete
  requests. The stand-in hash keeps the salt in front of the password; the stand-in
  token is the user id behind a fixed prefix. In \<open>demo_env\<close> the store ranks all ties
  alike, so that they come out as \<open>demo_db\<close> lists them.
\<close>

definition demo_libs :: libs where
  "demo_libs =
     \<lparr>bcrypt_hash = (\<lambda>p r s. s @ CHR ''$'' # p),
      bcrypt_compare = (\<lambda>p h. length p < length h
                          \<and> drop (length h - Suc (length p)) h = CHR ''$'' # p),
      jwt_sign = (\<lambda>u x now. ''jwt.'' @ u),
      jwt_verify = (\<lambda>t now. if take 4 t = ''jwt.'' then Some (drop 4 t) else None),
      zod_email = (\<lambda>s. CHR ''@'' \<in> set s)\<rparr>"

definition demo_user :: "uuid \<Rightarrow> string \<Rightarrow> string \<Rightarrow> user_row" where
  "demo_user i em h =
     \<lparr>user_id = i, user_email = em, user_name = ''User'', user_passwordHash = h,
      user_createdAt = 1000, user_updatedAt = 1000\<rparr>"

definition demo_task :: "uuid \<Rightarrow> uuid \<Rightarrow> timestamp \<Rightarrow> task_row" where
  "demo_task i u c =
     \<lparr>task_id = i, task_userId = u, task_title = ''task'', task_description = None,
      task_completed = False, task_createdAt = c, task_updatedAt = c\<rparr>"

definition demo_db :: db where
  "demo_db =
     \<lparr>users = [demo_user ''ua'' ''a@x.com'' ''salt$pw123456'',
               demo_user ''ub'' ''b@x.com'' ''salt$password''],
      tasks = [demo_task ''b'' ''ua'' 2000, demo_task ''a'' ''ua'' 2000,
               demo_task ''c'' ''ua'' 2000, demo_task ''d'' ''ub'' 3000]\<rparr>"

definition demo_env :: env where
  "demo_env =
     \<lparr>env_now = 5000, env_uuid = ''e'', env_salt = ''salt'', env_ties = (\<lambda>t. 0)\<rparr>"

section \<open>Helper lemmas\<close>


lemma first_take1 [simp]: "first (take 1 xs) = first xs"
  by (cases xs) (simp_all add: first_def)

lemma first_take_Suc0 [simp]: "first (take (Suc 0) xs) = first xs"
  by (cases xs) (simp_all add: first_def)

lemma first_Nil [simp]: "first [] = None"
  by (simp add: first_def)

lemma first_Cons [simp]: "first (x # xs) = Some x"
  by (simp add: first_def)

lemma filter_unique_key:
  "distinct (map f xs) \<Longrightarrow> x \<in> set xs \<Longrightarrow> filter (\<lambda>y. f y = f x) xs = [x]"
proof (induction xs)
  case Nil
  then show ?case by simp
next
  case (Cons a xs)
  show ?case
  proof (cases "a = x")
    case True
    with Cons.prems have "\<forall>y\<in>set xs. f y \<noteq> f x" by (auto simp: image_iff)
    then have "filter (\<lambda>y. f y = f x) xs = []" by (simp add: filter_empty_conv)
    with True show ?thesis by simp
  next
    case False
    with Cons.prems have "x \<in> set xs" "f a \<noteq> f x" by (auto simp: image_iff)
    with Cons show ?thesis by simp
  qed
qed

lemma filter_absent_key:
  "k \<notin> set (map f xs) \<Longrightarrow> filter (\<lambda>y. f y = k) xs = []"
  by (auto simp: filter_empty_conv)

lemma db_tasks_same [simp]: "d\<lparr>tasks := tasks d\<rparr> = d"
  by simp

lemma no_row_of_other_owner:
  assumes "distinct (map task_id (tasks d))" and "t \<in> set (tasks d)"
      and "task_userId t \<noteq> B"
  shows "filter (\<lambda>r. task_id r = task_id t \<and> task_userId r = B) (tasks d) = []"
proof -
  have "filter (\<lambda>r. task_id r = task_id t) (tasks d) = [t]"
    using assms(1,2) by (rule filter_unique_key)
  then have "filter (\<lambda>r. task_userId r = B) (filter (\<lambda>r. task_id r = task_id t) (tasks d)) = []"
    using assms(3) by simp
  then show ?thesis by (simp add: conj_commute)
qed

lemma update_tasks_none:
  assumes "filter w (tasks d) = []"
  shows "update_tasks d u w = ([], d)"
proof -
  have "map (\<lambda>t. if w t then apply_update u t else t) xs = xs" if "filter w xs = []" for xs
    using that by (induction xs) (auto split: if_splits)
  with assms show ?thesis by (simp add: update_tasks_def)
qed

lemma delete_tasks_none:
  assumes "filter w (tasks d) = []"
  shows "delete_tasks d w = ([], d)"
proof -
  have "filter (\<lambda>t. \<not> w t) xs = xs" if "filter w xs = []" for xs
    using that by (induction xs) (auto split: if_splits)
  with assms show ?thesis by (simp add: delete_tasks_def)
qed

lemma update_tasks_keeps:
  assumes "\<And>x. w x \<Longrightarrow> \<not> P x \<and> \<not> P (apply_update u x)"
  shows "filter P (tasks (snd (update_tasks d u w))) = filter P (tasks d)"
proof -
  have "filter P (map (\<lambda>t. if w t then apply_update u t else t) xs) = filter P xs" for xs
    using assms by (induction xs) auto
  then show ?thesis by (simp add: update_tasks_def)
qed

lemma delete_tasks_keeps:
  assumes "\<And>x. w x \<Longrightarrow> \<not> P x"
  shows "filter P (tasks (snd (delete_tasks d w))) = filter P (tasks d)"
proof -
  have "filter P (filter (\<lambda>t. \<not> w t) xs) = filter P xs" for xs
    using assms by (induction xs) auto
  then show ?thesis by (simp add: delete_tasks_def)
qed

lemma getUserIdFromToken_valid:
  "jwt_verify L tok now = Some uid \<Longrightarrow> getUserIdFromToken L now (Some tok) = Inr uid"
  by (simp add: getUserIdFromToken_def jwtVerify_def)

lemma jwtVerify_valid:
  "jwt_verify L tok now = Some uid \<Longrightarrow> jwtVerify L now (Some tok) = Inr uid"
  by (simp add: jwtVerify_def)

lemma get_not_found:
  assumes "jwt_verify L tok (env_now e) = Some B"
      and "distinct (map task_id (tasks d))"
      and "t \<in> set (tasks d)" and "task_userId t = A" and "A \<noteq> B"
  shows "get_route L d e (Some tok) (task_id t) =
           (Inl \<lparr>body_statusCode = 404, body_error = ''Not Found'',
                 body_message = ''Task not found''\<rparr>, d)"
proof -
  have "filter (\<lambda>r. task_id r = task_id t \<and> task_userId r = B) (tasks d) = []"
    using assms(2,3,4,5) by (intro no_row_of_other_owner) auto
  with assms(1) show ?thesis
    by (simp add: get_route_def tasks_route_def jwtVerify_valid getTaskHandler_def
        getUserIdFromToken_valid defaultErrorHandler_def status_text_def notFound_def)
qed

lemma update_not_found:
  assumes "jwt_verify L tok (env_now e) = Some B"
      and "distinct (map task_id (tasks d))"
      and "t \<in> set (tasks d)" and "task_userId t = A" and "A \<noteq> B"
      and "\<not> (update_title b = None \<and> update_description b = None
              \<and> update_completed b = None)"
  shows "update_route L d e (Some tok) (task_id t) b =
           (Inl \<lparr>body_statusCode = 404, body_error = ''Not Found'',
                 body_message = ''Task not found''\<rparr>, d)"
proof -
  have "filter (\<lambda>r. task_id r = task_id t \<and> task_userId r = B) (tasks d) = []"
    using assms(2,3,4,5) by (intro no_row_of_other_owner) auto
  with assms(1,6) show ?thesis
    by (auto simp: update_route_def tasks_route_def jwtVerify_valid updateTaskHandler_def
        getUserIdFromToken_valid update_tasks_none defaultErrorHandler_def status_text_def
        notFound_def)
qed

lemma delete_not_found:
  assumes "jwt_verify L tok (env_now e) = Some B"
      and "distinct (map task_id (tasks d))"
      and "t \<in> set (tasks d)" and "task_userId t = A" and "A \<noteq> B"
  shows "delete_route L d e (Some tok) (task_id t) =
           (Inl \<lparr>body_statusCode = 404, body_error = ''Not Found'',
                 body_message = ''Task not found''\<rparr>, d)"
proof -
  have "filter (\<lambda>r. task_id r = task_id t \<and> task_userId r = B) (tasks d) = []"
    using assms(2,3,4,5) by (intro no_row_of_other_owner) auto
  with assms(1) show ?thesis
    by (simp add: delete_route_def tasks_route_def jwtVerify_valid deleteTaskHandler_def
        getUserIdFromToken_valid delete_tasks_none defaultErrorHandler_def status_text_def
        notFound_def)
qed

lemma update_route_no_fields:
  assumes "jwt_verify L tok (env_now e) = Some uid"
      and "update_title b = None \<and> update_description b = None \<and> update_completed b = None"
  shows "update_route L d e (Some tok) i b =
           (Inl \<lparr>body_statusCode = 400, body_error = ''Bad Request'',
                 body_message = ''At least one field must be provided''\<rparr>, d)"
  using assms
  by (simp add: update_route_def tasks_route_def jwtVerify_valid updateTaskHandler_def
      getUserIdFromToken_valid defaultErrorHandler_def status_text_def badRequest_def)

lemma get_returns_own_row:
  assumes "jwt_verify L tok (env_now e) = Some B"
      and "get_route L d e (Some tok) i = (Inr r, d')"
  shows "r \<in> set (tasks d) \<and> task_id r = i \<and> task_userId r = B \<and> d' = d"
proof -
  let ?w = "\<lambda>t. task_id t = i \<and> task_userId t = B"
  from assms have "first (filter ?w (tasks d)) = Some r" and "d' = d"
    by (auto simp: get_route_def tasks_route_def jwtVerify_valid getTaskHandler_def
        getUserIdFromToken_valid split: option.splits)
  then have "r \<in> set (filter ?w (tasks d))" and "d' = d"
    by (cases "filter ?w (tasks d)"; simp)+
  then show ?thesis by simp
qed

lemma snd_update_route:
  assumes "jwt_verify L tok (env_now e) = Some B"
  shows "snd (update_route L d e (Some tok) i b) = d
       \<or> snd (update_route L d e (Some tok) i b) =
           snd (update_tasks d
                  \<lparr>set_title = update_title b, set_description = update_description b,
                   set_completed = update_completed b, set_updatedAt = env_now e\<rparr>
                  (\<lambda>t. task_id t = i \<and> task_userId t = B))"
proof (cases "update_title b = None \<and> update_description b = None \<and> update_completed b = None")
  case True
  with assms show ?thesis
    by (simp add: update_route_def tasks_route_def jwtVerify_valid updateTaskHandler_def
        getUserIdFromToken_valid)
next
  case False
  with assms have "snd (update_route L d e (Some tok) i b) =
           snd (update_tasks d
                  \<lparr>set_title = update_title b, set_description = update_description b,
                   set_completed = update_completed b, set_updatedAt = env_now e\<rparr>
                  (\<lambda>t. task_id t = i \<and> task_userId t = B))"
    by (auto simp: update_route_def tasks_route_def jwtVerify_valid updateTaskHandler_def
        getUserIdFromToken_valid split: option.splits prod.splits)
  then show ?thesis ..
qed

lemma snd_delete_route:
  assumes "jwt_verify L tok (env_now e) = Some B"
  shows "snd (delete_route L d e (Some tok) i) =
           snd (delete_tasks d (\<lambda>t. task_id t = i \<and> task_userId t = B))"
  using assms
  by (auto simp: delete_route_def tasks_route_def jwtVerify_valid deleteTaskHandler_def
      getUserIdFromToken_valid split: option.splits prod.splits)

lemma update_keeps_others:
  assumes "jwt_verify L tok (env_now e) = Some B"
  shows "filter (\<lambda>r. task_userId r \<noteq> B) (tasks (snd (update_route L d e (Some tok) i b)))
         = filter (\<lambda>r. task_userId r \<noteq> B) (tasks d)"
proof -
  have "filter (\<lambda>r. task_userId r \<noteq> B)
          (tasks (snd (update_tasks d u (\<lambda>t. task_id t = i \<and> task_userId t = B))))
        = filter (\<lambda>r. task_userId r \<noteq> B) (tasks d)" for u
    by (rule update_tasks_keeps) (simp add: apply_update_def)
  with snd_update_route [OF assms, of d i b] show ?thesis
    by (elim disjE) simp_all
qed

lemma delete_keeps_others:
  assumes "jwt_verify L tok (env_now e) = Some B"
  shows "filter (\<lambda>r. task_userId r \<noteq> B) (tasks (snd (delete_route L d e (Some tok) i)))
         = filter (\<lambda>r. task_userId r \<noteq> B) (tasks d)"
proof -
  have "filter (\<lambda>r. task_userId r \<noteq> B)
          (tasks (snd (delete_tasks d (\<lambda>t. task_id t = i \<and> task_userId t = B))))
        = filter (\<lambda>r. task_userId r \<noteq> B) (tasks d)"
    by (rule delete_tasks_keeps) simp
  then show ?thesis
    by (simp only: snd_delete_route [OF assms])
qed

section \<open>The constraints of the store are kept\<close>

text \<open>
  The hypotheses below that the ids of \<open>tasks\<close> and the emails of \<open>users\<close> are
  distinct are the primary key and the unique constraint of the schema. Every route
  keeps them.
\<close>

lemma update_tasks_ids:
  assumes "update_tasks d u w = (rows, d')"
  shows "map task_id (tasks d') = map task_id (tasks d)"
proof -
  have "map task_id (map (\<lambda>t. if w t then apply_update u t else t) xs) = map task_id xs" for xs
    by (induction xs) (simp_all add: apply_update_def)
  with assms show ?thesis by (auto simp: update_tasks_def)
qed

lemma delete_tasks_ids:
  assumes "delete_tasks d w = (rows, d')" and "distinct (map task_id (tasks d))"
  shows "distinct (map task_id (tasks d'))"
  using assms by (auto simp: delete_tasks_def distinct_map_filter)

lemma tasks_pk_kept:
  assumes "distinct (map task_id (tasks d))"
  shows "distinct (map task_id (tasks (snd (create_route L d e auth cb))))
       \<and> distinct (map task_id (tasks (snd (update_route L d e auth i ub))))
       \<and> distinct (map task_id (tasks (snd (delete_route L d e auth i))))"
proof (intro conjI)
  show "distinct (map task_id (tasks (snd (create_route L d e auth cb))))"
    using assms
    by (auto simp: create_route_def tasks_route_def createTaskHandler_def insert_task_def
        Let_def split: sum.splits prod.splits)
  show "distinct (map task_id (tasks (snd (update_route L d e auth i ub))))"
    using assms
    by (auto simp: update_route_def tasks_route_def updateTaskHandler_def
        split: sum.splits prod.splits option.splits dest: update_tasks_ids)
  show "distinct (map task_id (tasks (snd (delete_route L d e auth i))))"
    using assms
    by (auto simp: delete_route_def tasks_route_def deleteTaskHandler_def
        split: sum.splits prod.splits option.splits dest: delete_tasks_ids)
qed

lemma users_unique_kept:
  assumes "distinct (map user_email (users d))" and "distinct (map user_id (users d))"
  shows "distinct (map user_email (users (snd (register_route L d e b))))
       \<and> distinct (map user_id (users (snd (register_route L d e b))))
       \<and> snd (login_route L d e lb) = d"
  using assms
  by (auto simp: register_route_def registerHandler_def insert_user_def login_route_def
      Let_def split: option.splits)

section \<open>Ownership\<close>

text \<open>
  Claim C1, as stated, fails for update: the handler checks that a field is supplied
  before it looks for the task. User ub's update, with no field, of the task a of user
  ua is answered 400 "At least one field must be provided", not 404.
\<close>

theorem non_owner_update_without_fields:
  "jwt_verify demo_libs ''jwt.ub'' (env_now demo_env) = Some ''ub''
   \<and> demo_task ''a'' ''ua'' 2000 \<in> set (tasks demo_db)
   \<and> update_route demo_libs demo_db demo_env (Some ''jwt.ub'') ''a''
         \<lparr>update_title = None, update_description = None, update_completed = None\<rparr> =
       (Inl \<lparr>body_statusCode = 400, body_error = ''Bad Request'',
             body_message = ''At least one field must be provided''\<rparr>, demo_db)"
proof -
  have 1: "jwt_verify demo_libs ''jwt.ub'' (env_now demo_env) = Some ''ub''"
    by (simp add: demo_libs_def)
  have 2: "demo_task ''a'' ''ua'' 2000 \<in> set (tasks demo_db)"
    by (simp add: demo_db_def)
  from update_route_no_fields [OF 1, of
      "\<lparr>update_title = None, update_description = None, update_completed = None\<rparr>"
      demo_db "''a''"] 1 2
  show ?thesis by simp
qed

text \<open>
  Claim C1, amended. Let user B hold a valid token, let the store satisfy the primary
  key of \<open>tasks\<close>, and let \<open>t\<close> be a stored task of another user A. Then B's get and
  delete of \<open>t\<close> answer 404 "Task not found"; B's update of \<open>t\<close> answers 404 "Task not
  found" when it supplies at least one field and 400 "At least one field must be
  provided" when it supplies none; and all three leave the store as it was. Moreover
  every query is filtered by the id and the requester: a task that get returns to B
  has the requested id and belongs to B, and after any update or delete by B the rows
  of all other users are what they were.
\<close>

theorem owner_scoped_access:
  assumes "jwt_verify L tok (env_now e) = Some B"
      and "distinct (map task_id (tasks d))"
      and "t \<in> set (tasks d)" and "task_userId t = A" and "A \<noteq> B"
  shows "get_route L d e (Some tok) (task_id t) =
           (Inl \<lparr>body_statusCode = 404, body_error = ''Not Found'',
                 body_message = ''Task not found''\<rparr>, d)
       \<and> update_route L d e (Some tok) (task_id t) b =
           (Inl (if update_title b = None \<and> update_description b = None
                    \<and> update_completed b = None
                 then \<lparr>body_statusCode = 400, body_error = ''Bad Request'',
                       body_message = ''At least one field must be provided''\<rparr>
                 else \<lparr>body_statusCode = 404, body_error = ''Not Found'',
                       body_message = ''Task not found''\<rparr>), d)
       \<and> delete_route L d e (Some tok) (task_id t) =
           (Inl \<lparr>body_statusCode = 404, body_error = ''Not Found'',
                 body_message = ''Task not found''\<rparr>, d)
       \<and> (\<forall>i r d'. get_route L d e (Some tok) i = (Inr r, d') \<longrightarrow>
             r \<in> set (tasks d) \<and> task_id r = i \<and> task_userId r = B)
       \<and> (\<forall>i b'. filter (\<lambda>r. task_userId r \<noteq> B)
                    (tasks (snd (update_route L d e (Some tok) i b')))
                  = filter (\<lambda>r. task_userId r \<noteq> B) (tasks d))
       \<and> (\<forall>i. filter (\<lambda>r. task_userId r \<noteq> B)
                 (tasks (snd (delete_route L d e (Some tok) i)))
               = filter (\<lambda>r. task_userId r \<noteq> B) (tasks d))"
proof (intro conjI allI impI)
  show "get_route L d e (Some tok) (task_id t) =
           (Inl \<lparr>body_statusCode = 404, body_error = ''Not Found'',
                 body_message = ''Task not found''\<rparr>, d)"
    using assms by (rule get_not_found)
  show "delete_route L d e (Some tok) (task_id t) =
           (Inl \<lparr>body_statusCode = 404, body_error = ''Not Found'',
                 body_message = ''Task not found''\<rparr>, d)"
    using assms by (rule delete_not_found)
  show "update_route L d e (Some tok) (task_id t) b =
           (Inl (if update_title b = None \<and> update_description b = None
                    \<and> update_completed b = None
                 then \<lparr>body_statusCode = 400, body_error = ''Bad Request'',
                       body_message = ''At least one field must be provided''\<rparr>
                 else \<lparr>body_statusCode = 404, body_error = ''Not Found'',
                       body_message = ''Task not found''\<rparr>), d)"
  proof (cases "update_title b = None \<and> update_description b = None
                 \<and> update_completed b = None")
    case True
    with update_route_no_fields [OF assms(1) True] show ?thesis by simp
  next
    case False
    with update_not_found [OF assms] show ?thesis by simp
  qed
next
  fix i r d'
  assume "get_route L d e (Some tok) i = (Inr r, d')"
  with assms(1) have g: "r \<in> set (tasks d) \<and> task_id r = i \<and> task_userId r = B \<and> d' = d"
    by (rule get_returns_own_row)
  from g show "r \<in> set (tasks d)" by simp
  from g show "task_id r = i" by simp
  from g show "task_userId r = B" by simp
next
  fix i b'
  show "filter (\<lambda>r. task_userId r \<noteq> B) (tasks (snd (update_route L d e (Some tok) i b')))
        = filter (\<lambda>r. task_userId r \<noteq> B) (tasks d)"
    using assms(1) by (rule update_keeps_others)
next
  fix i
  show "filter (\<lambda>r. task_userId r \<noteq> B) (tasks (snd (delete_route L d e (Some tok) i)))
        = filter (\<lambda>r. task_userId r \<noteq> B) (tasks d)"
    using assms(1) by (rule delete_keeps_others)
qed

theorem owner_scoped_access_witness:
  "jwt_verify demo_libs ''jwt.ub'' (env_now demo_env) = Some ''ub''
   \<and> demo_task ''a'' ''ua'' 2000 \<in> set (tasks demo_db)
   \<and> get_route demo_libs demo_db demo_env (Some ''jwt.ub'') ''a'' =
       (Inl \<lparr>body_statusCode = 404, body_error = ''Not Found'',
             body_message = ''Task not found''\<rparr>, demo_db)
   \<and> update_route demo_libs demo_db demo_env (Some ''jwt.ub'') ''a''
         \<lparr>update_title = Some ''mine'', update_description = None, update_completed = None\<rparr> =
       (Inl \<lparr>body_statusCode = 404, body_error = ''Not Found'',
             body_message = ''Task not found''\<rparr>, demo_db)
   \<and> delete_route demo_libs demo_db demo_env (Some ''jwt.ub'') ''a'' =
       (Inl \<lparr>body_statusCode = 404, body_error = ''Not Found'',
             body_message = ''Task not found''\<rparr>, demo_db)"
proof -
  have 1: "jwt_verify demo_libs ''jwt.ub'' (env_now demo_env) = Some ''ub''"
    by (simp add: demo_libs_def)
  have 2: "distinct (map task_id (tasks demo_db))"
    by (simp add: demo_db_def demo_task_def)
  have 3: "demo_task ''a'' ''ua'' 2000 \<in> set (tasks demo_db)"
    by (simp add: demo_db_def)
  have 4: "task_userId (demo_task ''a'' ''ua'' 2000) = ''ua''"
    by (simp add: demo_task_def)
  have 5: "''ua'' \<noteq> ''ub''" by simp
  have 7: "task_id (demo_task ''a'' ''ua'' 2000) = ''a''"
    by (simp add: demo_task_def)
  from owner_scoped_access [OF 1 2 3 4 5, of
      "\<lparr>update_title = Some ''mine'', update_description = None, update_completed = None\<rparr>"]
    1 3
  show ?thesis by (simp add: 7)
qed


section \<open>Register, then login\<close>

lemma demo_bcrypt: "bcrypt_contract demo_libs"
  by (simp add: bcrypt_contract_def demo_libs_def)

lemma demo_jwt: "jwt_contract demo_libs"
  by (simp add: jwt_contract_def demo_libs_def)

lemma register_route_fresh:
  assumes "registerBodySchema L b"
      and "register_email b \<notin> set (map user_email (users d))"
      and "env_uuid e \<notin> set (map user_id (users d))"
  shows "register_route L d e b =
           (Inr \<lparr>resp_user =
                   \<lparr>api_id = env_uuid e, api_email = register_email b,
                    api_name = register_name b, api_createdAt = env_now e,
                    api_updatedAt = env_now e\<rparr>,
                 resp_token = jwt_sign L (env_uuid e) ''7d'' (env_now e),
                 resp_expiresIn = SEVEN_DAYS\<rparr>,
            d\<lparr>users := users d @
               [\<lparr>user_id = env_uuid e, user_email = register_email b,
                 user_name = register_name b,
                 user_passwordHash =
                   bcrypt_hash L (register_password b) SALT_ROUNDS (env_salt e),
                 user_createdAt = env_now e, user_updatedAt = env_now e\<rparr>]\<rparr>)"
proof -
  have "filter (\<lambda>u. user_email u = register_email b) (users d) = []"
    using assms(2) by (rule filter_absent_key)
  then show ?thesis
    using assms
    by (simp add: register_route_def registerHandler_def insert_user_def hashPassword_def
        generateToken_def public_user_def Let_def)
qed

lemma login_route_after_register:
  assumes "bcrypt_contract L"
      and "loginBodySchema L \<lparr>login_email = em, login_password = pw\<rparr>"
      and "em \<notin> set (map user_email (users d))"
      and "user_email row = em"
      and "user_passwordHash row = bcrypt_hash L pw r s"
  shows "login_route L (d\<lparr>users := users d @ [row]\<rparr>) e'
           \<lparr>login_email = em, login_password = pw\<rparr> =
           (Inr \<lparr>resp_user = public_user row,
                 resp_token = jwt_sign L (user_id row) ''7d'' (env_now e'),
                 resp_expiresIn = SEVEN_DAYS\<rparr>,
            d\<lparr>users := users d @ [row]\<rparr>)"
proof -
  have "filter (\<lambda>u. user_email u = em) (users d) = []"
    using assms(3) by (rule filter_absent_key)
  moreover have "bcrypt_compare L pw (user_passwordHash row)"
    using assms(1,5) by (simp add: bcrypt_contract_def)
  ultimately show ?thesis
    using assms(2,4)
    by (simp add: login_route_def loginHandler_def verifyPassword_def generateToken_def)
qed

lemma token_resolves:
  assumes "jwt_contract L" and "now \<le> t" and "t < now + 1000 * SEVEN_DAYS"
  shows "getUserIdFromToken L t (Some (jwt_sign L u ''7d'' now)) = Inr u"
  using assms by (simp add: jwt_contract_def getUserIdFromToken_valid)

text \<open>
  Claim C2. Let the libraries keep their contracts, let the body pass the register
  schema, let its email be unregistered and let the drawn UUID be unused. Then
  register succeeds; a login with the same email and password on the resulting store
  succeeds; and the token of either response, verified within seven days of its
  issue, resolves to the id of the registered user.
\<close>

theorem register_then_login:
  assumes "bcrypt_contract L" and "jwt_contract L"
      and "registerBodySchema L b"
      and "register_email b \<notin> set (map user_email (users d))"
      and "env_uuid e \<notin> set (map user_id (users d))"
      and "env_now e \<le> t" and "t < env_now e + 1000 * SEVEN_DAYS"
      and "env_now e' \<le> t'" and "t' < env_now e' + 1000 * SEVEN_DAYS"
  shows "\<exists>r1 d1 r2.
           register_route L d e b = (Inr r1, d1)
         \<and> login_route L d1 e'
               \<lparr>login_email = register_email b, login_password = register_password b\<rparr>
             = (Inr r2, d1)
         \<and> getUserIdFromToken L t (Some (resp_token r1)) = Inr (api_id (resp_user r1))
         \<and> getUserIdFromToken L t' (Some (resp_token r2)) = Inr (api_id (resp_user r1))
         \<and> api_id (resp_user r2) = api_id (resp_user r1)"
proof -
  let ?row = "\<lparr>user_id = env_uuid e, user_email = register_email b,
                 user_name = register_name b,
                 user_passwordHash =
                   bcrypt_hash L (register_password b) SALT_ROUNDS (env_salt e),
                 user_createdAt = env_now e, user_updatedAt = env_now e\<rparr>"
  let ?lb = "\<lparr>login_email = register_email b, login_password = register_password b\<rparr>"
  have reg: "register_route L d e b =
           (Inr \<lparr>resp_user =
                   \<lparr>api_id = env_uuid e, api_email = register_email b,
                    api_name = register_name b, api_createdAt = env_now e,
                    api_updatedAt = env_now e\<rparr>,
                 resp_token = jwt_sign L (env_uuid e) ''7d'' (env_now e),
                 resp_expiresIn = SEVEN_DAYS\<rparr>,
            d\<lparr>users := users d @ [?row]\<rparr>)"
    using assms(3,4,5) by (rule register_route_fresh)
  have "loginBodySchema L ?lb"
    using assms(3) by (simp add: registerBodySchema_def loginBodySchema_def)
  then have log: "login_route L (d\<lparr>users := users d @ [?row]\<rparr>) e' ?lb =
           (Inr \<lparr>resp_user = public_user ?row,
                 resp_token = jwt_sign L (user_id ?row) ''7d'' (env_now e'),
                 resp_expiresIn = SEVEN_DAYS\<rparr>,
            d\<lparr>users := users d @ [?row]\<rparr>)"
    using assms(1,4) by (intro login_route_after_register) simp_all
  have t1: "getUserIdFromToken L t (Some (jwt_sign L (env_uuid e) ''7d'' (env_now e)))
              = Inr (env_uuid e)"
    using assms(2,6,7) by (rule token_resolves)
  have t2: "getUserIdFromToken L t' (Some (jwt_sign L (env_uuid e) ''7d'' (env_now e')))
              = Inr (env_uuid e)"
    using assms(2,8,9) by (rule token_resolves)
  show ?thesis
    using reg log t1 t2 by (simp add: public_user_def)
qed

theorem register_then_login_witness:
  "\<exists>r1 d1 r2.
     register_route demo_libs demo_db demo_env
       \<lparr>register_email = ''c@x.com'', register_password = ''pw123456'',
        register_name = ''C''\<rparr> = (Inr r1, d1)
   \<and> login_route demo_libs d1 demo_env
       \<lparr>login_email = ''c@x.com'', login_password = ''pw123456''\<rparr> = (Inr r2, d1)
   \<and> getUserIdFromToken demo_libs 6000 (Some (resp_token r1)) = Inr (api_id (resp_user r1))
   \<and> getUserIdFromToken demo_libs 7000 (Some (resp_token r2)) = Inr (api_id (resp_user r1))
   \<and> api_id (resp_user r2) = api_id (resp_user r1)"
proof -
  have 1: "bcrypt_contract demo_libs" by (rule demo_bcrypt)
  have 2: "jwt_contract demo_libs" by (rule demo_jwt)
  have 3: "registerBodySchema demo_libs
       \<lparr>register_email = ''c@x.com'', register_password = ''pw123456'',
        register_name = ''C''\<rparr>"
    by (simp add: registerBodySchema_def emailSchema_def passwordSchema_def demo_libs_def)
  have 4: "register_email \<lparr>register_email = ''c@x.com'', register_password = ''pw123456'',
        register_name = ''C''\<rparr> \<notin> set (map user_email (users demo_db))"
    by (simp add: demo_db_def demo_user_def)
  have 5: "env_uuid demo_env \<notin> set (map user_id (users demo_db))"
    by (simp add: demo_db_def demo_user_def demo_env_def)
  have 6: "env_now demo_env \<le> 6000" "6000 < env_now demo_env + 1000 * SEVEN_DAYS"
     "env_now demo_env \<le> 7000" "7000 < env_now demo_env + 1000 * SEVEN_DAYS"
    by (simp_all add: demo_env_def SEVEN_DAYS_def)
  from register_then_login [OF 1 2 3 4 5 6] show ?thesis by simp
qed



section \<open>Login failures\<close>

text \<open>
  Claim C3, as stated, fails: not every login request reaches the handler. A login
  with an unregistered email is answered 401, while a login with the registered email
  a@x.com and the wrong password "wrongpw", which has 7 characters, is stopped by the
  schema of the route and answered 400.
\<close>

theorem login_short_wrong_password:
  "login_route demo_libs demo_db demo_env
     \<lparr>login_email = ''nobody@x.com'', login_password = ''whatever1''\<rparr> =
     (Inl \<lparr>body_statusCode = 401, body_error = ''Unauthorized'',
           body_message = ''Invalid email or password''\<rparr>, demo_db)
   \<and> demo_user ''ua'' ''a@x.com'' ''salt$pw123456'' \<in> set (users demo_db)
   \<and> \<not> verifyPassword demo_libs ''wrongpw'' ''salt$pw123456''
   \<and> map_sum body_statusCode id
         (fst (login_route demo_libs demo_db demo_env
                 \<lparr>login_email = ''a@x.com'', login_password = ''wrongpw''\<rparr>)) = Inl 400"
  by (simp add: login_route_def loginHandler_def loginBodySchema_def emailSchema_def
      passwordSchema_def verifyPassword_def defaultErrorHandler_def status_text_def
      unauthorized_def validationError_def demo_libs_def demo_db_def demo_user_def)

text \<open>
  Claim C3, amended. For login requests whose body passes the schema of the route (an
  email, a password of at least 8 characters): when the email is not registered, and
  when the email is registered (the store keeping emails unique) but the password
  does not verify, the response is the same error body: status 401, error
  "Unauthorized", message "Invalid email or password". The store is unchanged.
\<close>

theorem login_errors_identical:
  assumes "loginBodySchema L b1" and "loginBodySchema L b2"
      and "login_email b1 \<notin> set (map user_email (users d1))"
      and "distinct (map user_email (users d2))"
      and "u \<in> set (users d2)" and "user_email u = login_email b2"
      and "\<not> verifyPassword L (login_password b2) (user_passwordHash u)"
  shows "login_route L d1 e1 b1 =
           (Inl \<lparr>body_statusCode = 401, body_error = ''Unauthorized'',
                 body_message = ''Invalid email or password''\<rparr>, d1)
       \<and> login_route L d2 e2 b2 =
           (Inl \<lparr>body_statusCode = 401, body_error = ''Unauthorized'',
                 body_message = ''Invalid email or password''\<rparr>, d2)"
proof -
  have a: "filter (\<lambda>v. user_email v = login_email b1) (users d1) = []"
    using assms(3) by (rule filter_absent_key)
  have "filter (\<lambda>v. user_email v = user_email u) (users d2) = [u]"
    using assms(4,5) by (rule filter_unique_key)
  then have b: "filter (\<lambda>v. user_email v = login_email b2) (users d2) = [u]"
    using assms(6) by simp
  show ?thesis
    using assms(1,2,7)
    by (simp add: login_route_def loginHandler_def a b defaultErrorHandler_def
        status_text_def unauthorized_def)
qed

theorem login_errors_identical_witness:
  "login_route demo_libs demo_db demo_env
     \<lparr>login_email = ''nobody@x.com'', login_password = ''whatever1''\<rparr> =
     (Inl \<lparr>body_statusCode = 401, body_error = ''Unauthorized'',
           body_message = ''Invalid email or password''\<rparr>, demo_db)
   \<and> login_route demo_libs demo_db demo_env
     \<lparr>login_email = ''a@x.com'', login_password = ''wrongpass''\<rparr> =
     (Inl \<lparr>body_statusCode = 401, body_error = ''Unauthorized'',
           body_message = ''Invalid email or password''\<rparr>, demo_db)"
proof -
  let ?b1 = "\<lparr>login_email = ''nobody@x.com'', login_password = ''whatever1''\<rparr>"
  let ?b2 = "\<lparr>login_email = ''a@x.com'', login_password = ''wrongpass''\<rparr>"
  let ?u = "demo_user ''ua'' ''a@x.com'' ''salt$pw123456''"
  have 1: "loginBodySchema demo_libs ?b1"
    by (simp add: loginBodySchema_def emailSchema_def passwordSchema_def demo_libs_def)
  have 2: "loginBodySchema demo_libs ?b2"
    by (simp add: loginBodySchema_def emailSchema_def passwordSchema_def demo_libs_def)
  have 3: "login_email ?b1 \<notin> set (map user_email (users demo_db))"
    by (simp add: demo_db_def demo_user_def)
  have 4: "distinct (map user_email (users demo_db))"
    by (simp add: demo_db_def demo_user_def)
  have 5: "?u \<in> set (users demo_db)"
    by (simp add: demo_db_def)
  have 6: "user_email ?u = login_email ?b2"
    by (simp add: demo_user_def)
  have 7: "\<not> verifyPassword demo_libs (login_password ?b2) (user_passwordHash ?u)"
    by (simp add: verifyPassword_def demo_libs_def demo_user_def)
  from login_errors_identical [OF 1 2 3 4 5 6 7] show ?thesis .
qed

section \<open>Update without fields\<close>

text \<open>
  Claim C6. An update request whose body supplies none of title, description and
  completed never changes the store, whatever its token; with a valid token the
  response is status 400, error "Bad Request", message "At least one field must be
  provided". The stored task and its \<open>updatedAt\<close> are part of the unchanged store.
\<close>

theorem update_without_fields_rejected:
  assumes "update_title b = None" and "update_description b = None"
      and "update_completed b = None"
  shows "snd (update_route L d e auth i b) = d
       \<and> (jwt_verify L tok (env_now e) = Some uid \<longrightarrow>
            update_route L d e (Some tok) i b =
              (Inl \<lparr>body_statusCode = 400, body_error = ''Bad Request'',
                    body_message = ''At least one field must be provided''\<rparr>, d))"
  using assms
  by (simp add: update_route_def tasks_route_def jwtVerify_def updateTaskHandler_def
      getUserIdFromToken_def defaultErrorHandler_def status_text_def badRequest_def
      split: option.splits sum.splits)

theorem update_without_fields_rejected_witness:
  "update_route demo_libs demo_db demo_env (Some ''jwt.ua'') ''a''
     \<lparr>update_title = None, update_description = None, update_completed = None\<rparr> =
     (Inl \<lparr>body_statusCode = 400, body_error = ''Bad Request'',
           body_message = ''At least one field must be provided''\<rparr>, demo_db)"
  using update_without_fields_rejected
    [of "\<lparr>update_title = None, update_description = None, update_completed = None\<rparr>"
        demo_libs demo_db demo_env "Some ''jwt.ua''" "''a''" "''jwt.ua''" "''ua''"]
  by (simp add: demo_libs_def)

section \<open>Password length\<close>

text \<open>
  Claim C9. A login or register body whose password has fewer than 8 characters is
  rejected by the schema of the route with status 400, before the handler runs: the
  login response is not 401, and register leaves the store unchanged, so it creates no
  user.
\<close>

theorem short_password_rejected:
  assumes "length pw < 8"
  shows "(\<exists>err. login_route L d e \<lparr>login_email = em, login_password = pw\<rparr> = (Inl err, d)
            \<and> body_statusCode err = 400)
       \<and> (\<exists>err. register_route L d e
                  \<lparr>register_email = em, register_password = pw, register_name = nm\<rparr>
                = (Inl err, d)
            \<and> body_statusCode err = 400)"
  using assms
  by (simp add: login_route_def register_route_def loginBodySchema_def
      registerBodySchema_def passwordSchema_def defaultErrorHandler_def status_text_def validationError_def)

theorem short_password_rejected_witness:
  "(\<exists>err. login_route demo_libs demo_db demo_env
             \<lparr>login_email = ''a@x.com'', login_password = ''wrongpw''\<rparr> = (Inl err, demo_db)
          \<and> body_statusCode err = 400)
   \<and> (\<exists>err. register_route demo_libs demo_db demo_env
             \<lparr>register_email = ''c@x.com'', register_password = ''wrongpw'',
              register_name = ''C''\<rparr> = (Inl err, demo_db)
          \<and> body_statusCode err = 400)"
  using short_password_rejected [of "''wrongpw''" demo_libs demo_db demo_env "''a@x.com''"]
    short_password_rejected [of "''wrongpw''" demo_libs demo_db demo_env "''c@x.com''" "''C''"]
  by simp

section \<open>Listing tasks\<close>

lemma list_route_valid:
  assumes "jwt_verify L tok (env_now e) = Some uid"
      and "0 \<le> (p - 1) * l" and "(p - 1) * l < 2 ^ 63"
  shows "list_route L d e (Some tok)
           \<lparr>params_page = Some p, params_limit = Some l, params_completed = c\<rparr> =
         (Inr \<lparr>list_data =
                 drop (nat ((p - 1) * l))
                   (orderBy_desc_createdAt (env_ties e)
                      (filter (whereClause uid c) (tasks d))),
               list_pagination =
                 \<lparr>pagination_page = JDigits p, pagination_limit = JDigits l,
                  pagination_total = length (filter (whereClause uid c) (tasks d)),
                  pagination_totalPages =
                    ceil_div (length (filter (whereClause uid c) (tasks d))) l\<rparr>\<rparr>, d)"
  using assms
  by (simp add: list_route_def tasks_route_def jwtVerify_valid listTasksHandler_def
      getUserIdFromToken_valid limit_offset_def to_number_def Let_def)

lemma demo_token_ua: "jwt_verify demo_libs ''jwt.ua'' (env_now demo_env) = Some ''ua''"
  by (simp add: demo_libs_def)

lemma demo_matching_ua:
  "filter (whereClause ''ua'' None) (tasks demo_db) =
     [demo_task ''b'' ''ua'' 2000, demo_task ''a'' ''ua'' 2000, demo_task ''c'' ''ua'' 2000]"
  by (simp add: whereClause_def demo_db_def demo_task_def)

lemma demo_ordered_ua:
  "orderBy_desc_createdAt (env_ties demo_env)
     [demo_task ''b'' ''ua'' 2000, demo_task ''a'' ''ua'' 2000, demo_task ''c'' ''ua'' 2000] =
     [demo_task ''b'' ''ua'' 2000, demo_task ''a'' ''ua'' 2000, demo_task ''c'' ''ua'' 2000]"
  by (simp add: orderBy_desc_createdAt_def demo_env_def demo_task_def)

text \<open>
  Claim C4 fails on the code: no task route has a schema, so \<open>paginationSchema\<close> never
  sees the query. With a valid token, \<open>page=1&limit=101\<close> (which the schema rejects) is
  answered with status 200 and the rows, and \<open>page=0&limit=20\<close> (which the schema
  rejects) reaches the store with the offset -20 and is answered with status 500, not
  400.
\<close>

theorem list_limit_not_validated:
  "paginationSchema (Some 1) (Some 101) = None
   \<and> list_route demo_libs demo_db demo_env (Some ''jwt.ua'')
     \<lparr>params_page = Some 1, params_limit = Some 101, params_completed = None\<rparr> =
     (Inr \<lparr>list_data = [demo_task ''b'' ''ua'' 2000, demo_task ''a'' ''ua'' 2000,
                         demo_task ''c'' ''ua'' 2000],
           list_pagination = \<lparr>pagination_page = JDigits 1, pagination_limit = JDigits 101,
                              pagination_total = 3, pagination_totalPages = Finite 1\<rparr>\<rparr>,
      demo_db)
   \<and> paginationSchema (Some 0) (Some 20) = None
   \<and> (\<exists>err. list_route demo_libs demo_db demo_env (Some ''jwt.ua'')
               \<lparr>params_page = Some 0, params_limit = Some 20, params_completed = None\<rparr> =
               (Inl err, demo_db)
          \<and> body_statusCode err = 500 \<and> body_error err = ''Internal Server Error'')"
proof -
  have a: "list_route demo_libs demo_db demo_env (Some ''jwt.ua'')
     \<lparr>params_page = Some 1, params_limit = Some 101, params_completed = None\<rparr> =
     (Inr \<lparr>list_data = [demo_task ''b'' ''ua'' 2000, demo_task ''a'' ''ua'' 2000,
                         demo_task ''c'' ''ua'' 2000],
           list_pagination = \<lparr>pagination_page = JDigits 1, pagination_limit = JDigits 101,
                              pagination_total = 3, pagination_totalPages = Finite 1\<rparr>\<rparr>,
      demo_db)"
    using list_route_valid [OF demo_token_ua, of 1 101 demo_db None]
    by (simp add: demo_matching_ua demo_ordered_ua ceil_div_def)
  have b: "\<exists>err. list_route demo_libs demo_db demo_env (Some ''jwt.ua'')
               \<lparr>params_page = Some 0, params_limit = Some 20, params_completed = None\<rparr> =
               (Inl err, demo_db)
          \<and> body_statusCode err = 500 \<and> body_error err = ''Internal Server Error''"
    using demo_token_ua
    by (simp add: list_route_def tasks_route_def jwtVerify_valid listTasksHandler_def
        getUserIdFromToken_valid limit_offset_def to_number_def defaultErrorHandler_def
        status_text_def postgresError_def)
  have c: "paginationSchema (Some 1) (Some 101) = None"
     "paginationSchema (Some 0) (Some 20) = None"
    by (simp_all add: paginationSchema_def)
  from a b c show ?thesis by simp
qed

text \<open>
  Claim C5 fails on the code. The handler passes the \<open>limit\<close> of the query string to
  the query as the string it is, and the query is built without a LIMIT: for a user
  with three tasks, \<open>page=1&limit=2\<close> is answered with all three rows, not with the
  slice of two, and \<open>page=2&limit=2\<close> with the third row, so that pages 1 and 2
  together hold the rows of ids b, a, c, c: the third row twice. Moreover the query
  orders by \<open>createdAt\<close> only: the three rows have the same \<open>createdAt\<close> and come out
  as the store ranks them, here b, a, c, which is neither ascending nor descending by
  id.
\<close>

theorem list_explicit_limit_ignored:
  "list_route demo_libs demo_db demo_env (Some ''jwt.ua'')
     \<lparr>params_page = Some 1, params_limit = Some 2, params_completed = None\<rparr> =
     (Inr \<lparr>list_data = [demo_task ''b'' ''ua'' 2000, demo_task ''a'' ''ua'' 2000,
                         demo_task ''c'' ''ua'' 2000],
           list_pagination = \<lparr>pagination_page = JDigits 1, pagination_limit = JDigits 2,
                              pagination_total = 3, pagination_totalPages = Finite 2\<rparr>\<rparr>,
      demo_db)
   \<and> list_route demo_libs demo_db demo_env (Some ''jwt.ua'')
     \<lparr>params_page = Some 2, params_limit = Some 2, params_completed = None\<rparr> =
     (Inr \<lparr>list_data = [demo_task ''c'' ''ua'' 2000],
           list_pagination = \<lparr>pagination_page = JDigits 2, pagination_limit = JDigits 2,
                              pagination_total = 3, pagination_totalPages = Finite 2\<rparr>\<rparr>,
      demo_db)
   \<and> map task_createdAt [demo_task ''b'' ''ua'' 2000, demo_task ''a'' ''ua'' 2000,
                          demo_task ''c'' ''ua'' 2000] = [2000, 2000, 2000]
   \<and> map task_id [demo_task ''b'' ''ua'' 2000, demo_task ''a'' ''ua'' 2000,
                   demo_task ''c'' ''ua'' 2000] = [''b'', ''a'', ''c'']
   \<and> \<not> sorted [''b'', ''a'', ''c'']
   \<and> \<not> sorted (rev [''b'', ''a'', ''c''])"
proof -
  have p1: "list_route demo_libs demo_db demo_env (Some ''jwt.ua'')
     \<lparr>params_page = Some 1, params_limit = Some 2, params_completed = None\<rparr> =
     (Inr \<lparr>list_data = [demo_task ''b'' ''ua'' 2000, demo_task ''a'' ''ua'' 2000,
                         demo_task ''c'' ''ua'' 2000],
           list_pagination = \<lparr>pagination_page = JDigits 1, pagination_limit = JDigits 2,
                              pagination_total = 3, pagination_totalPages = Finite 2\<rparr>\<rparr>,
      demo_db)"
    using list_route_valid [OF demo_token_ua, of 1 2 demo_db None]
    by (simp add: demo_matching_ua demo_ordered_ua ceil_div_def)
  have p2: "list_route demo_libs demo_db demo_env (Some ''jwt.ua'')
     \<lparr>params_page = Some 2, params_limit = Some 2, params_completed = None\<rparr> =
     (Inr \<lparr>list_data = [demo_task ''c'' ''ua'' 2000],
           list_pagination = \<lparr>pagination_page = JDigits 2, pagination_limit = JDigits 2,
                              pagination_total = 3, pagination_totalPages = Finite 2\<rparr>\<rparr>,
      demo_db)"
    using list_route_valid [OF demo_token_ua, of 2 2 demo_db None]
    by (simp add: demo_matching_ua demo_ordered_ua ceil_div_def)
  have "\<not> sorted [''b'', ''a'', ''c''] \<and> \<not> sorted (rev [''b'', ''a'', ''c''])"
    by simp
  with p1 p2 show ?thesis by (simp add: demo_task_def)
qed

lemma first_filter_Some:
  assumes "first (filter P xs) = Some x"
  shows "x \<in> set xs \<and> P x"
proof -
  from assms have "x \<in> set (filter P xs)"
    by (cases "filter P xs") (simp_all add: first_def)
  then show ?thesis by simp
qed

lemma create_route_valid:
  assumes "jwt_verify L tok (env_now e) = Some uid"
      and "uid \<in> set (map user_id (users d))"
      and "env_uuid e \<notin> set (map task_id (tasks d))"
  shows "create_route L d e (Some tok) b =
           (Inr \<lparr>task_id = env_uuid e, task_userId = uid, task_title = create_title b,
                 task_description = or_null (create_description b), task_completed = False,
                 task_createdAt = env_now e, task_updatedAt = env_now e\<rparr>,
            d\<lparr>tasks := tasks d @
               [\<lparr>task_id = env_uuid e, task_userId = uid, task_title = create_title b,
                 task_description = or_null (create_description b), task_completed = False,
                 task_createdAt = env_now e, task_updatedAt = env_now e\<rparr>]\<rparr>)"
  using assms
  by (simp add: create_route_def tasks_route_def jwtVerify_valid createTaskHandler_def
      getUserIdFromToken_valid insert_task_def Let_def)

lemma demo_user_ua: "''ua'' \<in> set (map user_id (users demo_db))"
  by (simp add: demo_db_def demo_user_def)

lemma demo_uuid_fresh: "env_uuid demo_env \<notin> set (map task_id (tasks demo_db))"
  by (simp add: demo_db_def demo_task_def demo_env_def)

section \<open>Creating a task\<close>

text \<open>
  Claim C10. A create request by an authenticated, registered user (the drawn UUID being
  unused) inserts one task whose description is null when the request has no
  description or the empty string, and is the supplied description when that is
  non-empty.
\<close>

theorem create_description_or_null:
  assumes "jwt_verify L tok (env_now e) = Some uid"
      and "uid \<in> set (map user_id (users d))"
      and "env_uuid e \<notin> set (map task_id (tasks d))"
  shows "\<exists>t. create_route L d e (Some tok) b = (Inr t, d\<lparr>tasks := tasks d @ [t]\<rparr>)
           \<and> task_description t =
               (if create_description b = None \<or> create_description b = Some []
                then None else create_description b)"
  using create_route_valid [OF assms, of b]
  by (auto simp: or_null_def split: option.splits)

theorem create_description_or_null_witness:
  "(\<exists>t. create_route demo_libs demo_db demo_env (Some ''jwt.ua'')
           \<lparr>create_title = ''buy milk'', create_description = Some []\<rparr>
         = (Inr t, demo_db\<lparr>tasks := tasks demo_db @ [t]\<rparr>)
       \<and> task_description t = None)
   \<and> (\<exists>t. create_route demo_libs demo_db demo_env (Some ''jwt.ua'')
           \<lparr>create_title = ''buy milk'', create_description = Some ''2 litres''\<rparr>
         = (Inr t, demo_db\<lparr>tasks := tasks demo_db @ [t]\<rparr>)
       \<and> task_description t = Some ''2 litres'')"
  using create_description_or_null [OF demo_token_ua demo_user_ua demo_uuid_fresh,
      of "\<lparr>create_title = ''buy milk'', create_description = Some []\<rparr>"]
    create_description_or_null [OF demo_token_ua demo_user_ua demo_uuid_fresh,
      of "\<lparr>create_title = ''buy milk'', create_description = Some ''2 litres''\<rparr>"]
  by simp

text \<open>
  Claim C7 fails on the code: the create route has no schema and the handler does not
  look at the title. A create with the empty title (and the empty description) by a
  registered user is answered 200 and inserts the row, with the empty title and with
  description null; the claim says 400 and no row.
\<close>

theorem create_empty_title_inserted:
  "create_route demo_libs demo_db demo_env (Some ''jwt.ua'')
     \<lparr>create_title = [], create_description = Some []\<rparr> =
     (Inr \<lparr>task_id = ''e'', task_userId = ''ua'', task_title = [],
           task_description = None, task_completed = False,
           task_createdAt = 5000, task_updatedAt = 5000\<rparr>,
      demo_db\<lparr>tasks := tasks demo_db @
        [\<lparr>task_id = ''e'', task_userId = ''ua'', task_title = [],
          task_description = None, task_completed = False,
          task_createdAt = 5000, task_updatedAt = 5000\<rparr>]\<rparr>)"
  using create_route_valid [OF demo_token_ua demo_user_ua demo_uuid_fresh,
      of "\<lparr>create_title = [], create_description = Some []\<rparr>"]
  by (simp add: or_null_def demo_env_def)

section \<open>The user of a response\<close>

text \<open>
  Claim C8. The user object of a successful login or register response is built from a
  stored row with the request's email and has exactly the fields id, email, name,
  createdAt and updatedAt of that row. The password hash is not among them: the
  object is a value of the five-field type of the API's \<open>User\<close>.
\<close>

theorem auth_response_user_public:
  "(login_route L d e b = (Inr r, d') \<longrightarrow>
      (\<exists>u. u \<in> set (users d) \<and> user_email u = login_email b
         \<and> resp_user r =
             \<lparr>api_id = user_id u, api_email = user_email u, api_name = user_name u,
              api_createdAt = user_createdAt u, api_updatedAt = user_updatedAt u\<rparr>))
   \<and> (register_route L d e rb = (Inr r', d'') \<longrightarrow>
      (\<exists>u. u \<in> set (users d'') \<and> user_email u = register_email rb
         \<and> resp_user r' =
             \<lparr>api_id = user_id u, api_email = user_email u, api_name = user_name u,
              api_createdAt = user_createdAt u, api_updatedAt = user_updatedAt u\<rparr>))"
proof (intro conjI impI)
  assume "login_route L d e b = (Inr r, d')"
  then obtain u where u: "first (filter (\<lambda>u. user_email u = login_email b) (users d)) = Some u"
      and r: "resp_user r = public_user u"
    by (auto simp: login_route_def loginHandler_def split: if_splits option.splits)
  from first_filter_Some [OF u] r
  show "\<exists>u. u \<in> set (users d) \<and> user_email u = login_email b
         \<and> resp_user r =
             \<lparr>api_id = user_id u, api_email = user_email u, api_name = user_name u,
              api_createdAt = user_createdAt u, api_updatedAt = user_updatedAt u\<rparr>"
    by (auto simp: public_user_def)
next
  assume "register_route L d e rb = (Inr r', d'')"
  then obtain u where "resp_user r' = public_user u" and "d'' = d\<lparr>users := users d @ [u]\<rparr>"
    and "user_email u = register_email rb"
    by (auto simp: register_route_def registerHandler_def insert_user_def Let_def
        split: if_splits option.splits)
  then show "\<exists>u. u \<in> set (users d'') \<and> user_email u = register_email rb
         \<and> resp_user r' =
             \<lparr>api_id = user_id u, api_email = user_email u, api_name = user_name u,
              api_createdAt = user_createdAt u, api_updatedAt = user_updatedAt u\<rparr>"
    by (auto simp: public_user_def)
qed

theorem auth_response_user_public_witness:
  "login_route demo_libs demo_db demo_env
     \<lparr>login_email = ''a@x.com'', login_password = ''pw123456''\<rparr> =
     (Inr \<lparr>resp_user = \<lparr>api_id = ''ua'', api_email = ''a@x.com'', api_name = ''User'',
                         api_createdAt = 1000, api_updatedAt = 1000\<rparr>,
           resp_token = ''jwt.ua'', resp_expiresIn = 604800\<rparr>, demo_db)
   \<and> (\<exists>u. u \<in> set (users demo_db) \<and> user_email u = ''a@x.com''
         \<and> \<lparr>api_id = ''ua'', api_email = ''a@x.com'', api_name = ''User'',
             api_createdAt = 1000, api_updatedAt = 1000\<rparr> =
             \<lparr>api_id = user_id u, api_email = user_email u, api_name = user_name u,
              api_createdAt = user_createdAt u, api_updatedAt = user_updatedAt u\<rparr>)"
proof -
  let ?b = "\<lparr>login_email = ''a@x.com'', login_password = ''pw123456''\<rparr>"
  let ?r = "\<lparr>resp_user = \<lparr>api_id = ''ua'', api_email = ''a@x.com'', api_name = ''User'',
                         api_createdAt = 1000, api_updatedAt = 1000\<rparr>,
           resp_token = ''jwt.ua'', resp_expiresIn = 604800\<rparr>"
  have ev: "login_route demo_libs demo_db demo_env ?b = (Inr ?r, demo_db)"
    by (simp add: login_route_def loginHandler_def loginBodySchema_def emailSchema_def
        passwordSchema_def verifyPassword_def generateToken_def public_user_def
        SEVEN_DAYS_def demo_libs_def demo_db_def demo_user_def)
  from auth_response_user_public [of demo_libs demo_db demo_env ?b ?r demo_db]
  have "\<exists>u. u \<in> set (users demo_db) \<and> user_email u = login_email ?b
         \<and> resp_user ?r =
             \<lparr>api_id = user_id u, api_email = user_email u, api_name = user_name u,
              api_createdAt = user_createdAt u, api_updatedAt = user_updatedAt u\<rparr>"
    using ev by blast
  with ev show ?thesis by simp
qed

end
